theory Spec2Isabelle
  imports Main "HOL-Library.Word"
begin

section \<open>JavaScript values and completions\<close>

text \<open>
  A call either returns a value or throws one: every \<open>throw\<close> of the source, and every
  error the runtime raises on its behalf, is a \<open>Throw\<close> of the model. A promise is
  modelled by how it settles: \<open>Fulfilled v\<close>, \<open>Rejected e\<close>, or \<open>Pending\<close> when it never
  settles.
\<close>

datatype ('a, 'e) outcome = Return 'a | Throw 'e

datatype ('a, 'e) promise = Pending | Fulfilled 'a | Rejected 'e

text \<open>
  The containers are generic: a payload of type \<open>T\<close> or \<open>E\<close> is any JavaScript value,
  \<open>undefined\<close> included. The payloads of this development range over the values below.
  \<^item> \<open>JNum w\<close> is the Number whose value is the integer \<open>sint w\<close>, from \<open>- 2^53\<close> to
    \<open>2^53 - 1\<close>: each of these integers is a Number exactly.
  \<^item> \<open>JSymbol d\<close> is a Symbol with description \<open>d\<close>.
  \<^item> \<open>JError name message\<close> is an error object with these \<open>name\<close> and \<open>message\<close>
    strings and the methods of \<open>Error.prototype\<close>, as \<open>new Error(message)\<close> builds it.
  \<^item> \<open>JPromise p\<close> is an instance of the built-in \<open>Promise\<close>, with the built-in \<open>then\<close>
    and \<open>catch\<close>, that settles as \<open>p\<close>.
  \<^item> \<open>JObject a conv th\<close> is any other object, at address \<open>a\<close>. Its methods are
    caller code, and the object carries what they do where this development reaches
    them: \<open>conv\<close> is how its conversion to a string completes (a string, or the value
    thrown: a TypeError for an object without \<open>toString\<close>, anything for a \<open>toString\<close>
    of its own), and \<open>th\<close> is \<open>None\<close> when the object has no \<open>then\<close> method, and
    \<open>Some p\<close> when it has one (a thenable, a promise of another realm or library) and
    a promise resolved with the object settles as \<open>p\<close>. No such object is an instance
    of this realm's \<open>Promise\<close>.
\<close>

datatype jsval =
    JUndefined
  | JNull
  | JBool bool
  | JNum "54 word"
  | JStr string
  | JSymbol string
  | JError string string
  | JObject nat "(string, jsval) outcome" "(jsval, jsval) promise option"
  | JPromise "(jsval, jsval) promise"

type_synonym 'a completion = "('a, jsval) outcome"

text \<open>\<open>new Error(message)\<close>, and the TypeError the runtime throws.\<close>

definition new_Error :: "string \<Rightarrow> jsval" where
  "new_Error message = JError ''Error'' message"

definition new_TypeError :: "string \<Rightarrow> jsval" where
  "new_TypeError message = JError ''TypeError'' message"

subsection \<open>String conversion, as a template literal performs it\<close>

text \<open>
  \<open>Number::toString\<close> in radix 10. Every integer below \<open>10^21\<close> in magnitude is printed
  by its decimal digits, so all the values of \<open>JNum\<close> are.
\<close>

definition decimal_digit :: "nat \<Rightarrow> char" where
  "decimal_digit d = ''0123456789'' ! d"

fun decimal_of_nat :: "nat \<Rightarrow> string" where
  "decimal_of_nat n =
     (if 10 \<le> n then decimal_of_nat (n div 10) else []) @ [decimal_digit (n mod 10)]"

definition Number_toString :: "54 word \<Rightarrow> string" where
  "Number_toString w =
     (if 0 \<le> sint w then decimal_of_nat (nat (sint w))
      else CHR ''-'' # decimal_of_nat (nat (- sint w)))"

text \<open>
  \<open>`${v}`\<close> applies the abstract operation ToString to \<open>v\<close>. It throws a TypeError on
  a Symbol (the message is the one V8 gives); an error object is rendered by
  \<open>Error.prototype.toString\<close>, a built-in promise by \<open>Object.prototype.toString\<close>, and
  any other object by its own conversion.
\<close>

fun ToString :: "jsval \<Rightarrow> string completion" where
  "ToString JUndefined = Return ''undefined''"
| "ToString JNull = Return ''null''"
| "ToString (JBool b) = Return (if b then ''true'' else ''false'')"
| "ToString (JNum n) = Return (Number_toString n)"
| "ToString (JStr s) = Return s"
| "ToString (JSymbol d) =
     Throw (new_TypeError ''Cannot convert a Symbol value to a string'')"
| "ToString (JError name message) =
     Return (if name = [] then message
             else if message = [] then name
             else name @ '': '' @ message)"
| "ToString (JObject a conv th) = conv"
| "ToString (JPromise p) = Return ''[object Promise]''"

section \<open>Option\<close>

text \<open>
  \<open>class OptionImpl<T>\<close> has the one field \<open>private value?: T\<close>: a slot that holds
  \<open>undefined\<close> when the constructor is called without an argument.
\<close>

record OptionImpl =
  opt_value :: jsval

definition new_OptionImpl :: "jsval option \<Rightarrow> OptionImpl" where
  "new_OptionImpl arg =
     \<lparr>opt_value = (case arg of None \<Rightarrow> JUndefined | Some v \<Rightarrow> v)\<rparr>"

definition option_isSome :: "OptionImpl \<Rightarrow> bool" where
  "option_isSome this = (opt_value this \<noteq> JUndefined)"

definition option_isNone :: "OptionImpl \<Rightarrow> bool" where
  "option_isNone this = (opt_value this = JUndefined)"

definition option_unwrap :: "OptionImpl \<Rightarrow> jsval completion" where
  "option_unwrap this =
     (if option_isSome this then Return (opt_value this)
      else Throw (new_Error ''called `unwrap()` on a `None` value''))"

definition option_unwrapOr :: "OptionImpl \<Rightarrow> jsval \<Rightarrow> jsval completion" where
  "option_unwrapOr this defaultValue =
     Return (if option_isSome this then opt_value this else defaultValue)"

definition OptionImpl_some :: "jsval \<Rightarrow> OptionImpl" where
  "OptionImpl_some v = new_OptionImpl (Some v)"

definition OptionImpl_none :: "OptionImpl" where
  "OptionImpl_none = new_OptionImpl None"

text \<open>The exported \<open>Some\<close> (the factory) and \<open>None\<close> (one shared instance).\<close>

definition Some_opt :: "jsval \<Rightarrow> OptionImpl" where
  "Some_opt = OptionImpl_some"

definition None_opt :: "OptionImpl" where
  "None_opt = OptionImpl_none"

section \<open>Result\<close>

text \<open>
  \<open>class ResultImpl<T, E>\<close> has the fields \<open>private value: T | E\<close> and
  \<open>private isError: boolean\<close>.
\<close>

record ResultImpl =
  res_value :: jsval
  isError :: bool

definition new_ResultImpl :: "jsval \<Rightarrow> bool \<Rightarrow> ResultImpl" where
  "new_ResultImpl v e = \<lparr>res_value = v, isError = e\<rparr>"

definition result_isOk :: "ResultImpl \<Rightarrow> bool" where
  "result_isOk this = (\<not> isError this)"

definition result_isErr :: "ResultImpl \<Rightarrow> bool" where
  "result_isErr this = isError this"

text \<open>
  The message of the thrown error is a template literal over the stored value: the
  conversion runs first, and what it throws leaves \<open>unwrap\<close> in place of the error.
\<close>

definition result_unwrap :: "ResultImpl \<Rightarrow> jsval completion" where
  "result_unwrap this =
     (if result_isOk this then Return (res_value this)
      else (case ToString (res_value this) of
              Throw t \<Rightarrow> Throw t
            | Return s \<Rightarrow>
                Throw (new_Error (''called `unwrap()` on an `Err` value: '' @ s))))"

definition result_unwrapOr :: "ResultImpl \<Rightarrow> jsval \<Rightarrow> jsval completion" where
  "result_unwrapOr this defaultValue =
     Return (if result_isOk this then res_value this else defaultValue)"

definition result_unwrapErr :: "ResultImpl \<Rightarrow> jsval completion" where
  "result_unwrapErr this =
     (if result_isErr this then Return (res_value this)
      else (case ToString (res_value this) of
              Throw t \<Rightarrow> Throw t
            | Return s \<Rightarrow>
                Throw (new_Error (''called `unwrapErr()` on an `Ok` value: '' @ s))))"

definition result_ok :: "ResultImpl \<Rightarrow> OptionImpl" where
  "result_ok this = (if result_isOk this then Some_opt (res_value this) else None_opt)"

definition result_err :: "ResultImpl \<Rightarrow> OptionImpl" where
  "result_err this = (if result_isErr this then Some_opt (res_value this) else None_opt)"

definition ResultImpl_ok :: "jsval \<Rightarrow> ResultImpl" where
  "ResultImpl_ok v = new_ResultImpl v False"

definition ResultImpl_err :: "jsval \<Rightarrow> ResultImpl" where
  "ResultImpl_err error = new_ResultImpl error True"

definition Ok :: "jsval \<Rightarrow> ResultImpl" where
  "Ok = ResultImpl_ok"

definition Err :: "jsval \<Rightarrow> ResultImpl" where
  "Err = ResultImpl_err"

section \<open>wrapException\<close>













section \<open>Properties of Option\<close>

lemmas option_defs =
  option_isSome_def option_isNone_def option_unwrap_def option_unwrapOr_def
  OptionImpl_some_def OptionImpl_none_def Some_opt_def None_opt_def new_OptionImpl_def

lemma Some_opt_value: "opt_value (Some_opt v) = v"
  by (simp add: option_defs)

lemma None_opt_value: "opt_value None_opt = JUndefined"
  by (simp add: option_defs)

text \<open>
  \<open>Some(undefined)\<close> is a value the factory accepts, and it is not present: the slot is
  compared with \<open>undefined\<close>, so the first property of the claim C1 fails there, and
  \<open>unwrap()\<close> throws instead of returning \<open>undefined\<close>.
\<close>

theorem Some_undefined_not_present:
  "\<not> (option_isSome (Some_opt JUndefined) \<and> \<not> option_isNone (Some_opt JUndefined)
      \<and> option_unwrap (Some_opt JUndefined) = Return JUndefined)"
  by (simp add: option_isSome_def Some_opt_value)

text \<open>
  Claim C1, amended: for every value \<open>v\<close> other than \<open>undefined\<close>, \<open>Some(v).isSome()\<close> is
  true, \<open>Some(v).isNone()\<close> is false and \<open>Some(v).unwrap()\<close> returns \<open>v\<close> itself.
\<close>

theorem Some_is_present:
  "v \<noteq> JUndefined \<Longrightarrow>
     option_isSome (Some_opt v) \<and> \<not> option_isNone (Some_opt v)
     \<and> option_unwrap (Some_opt v) = Return v"
  by (simp add: option_isSome_def option_isNone_def option_unwrap_def Some_opt_value)

theorem Some_is_present_witness:
  "JNum 42 \<noteq> JUndefined \<and> option_isSome (Some_opt (JNum 42))
   \<and> \<not> option_isNone (Some_opt (JNum 42))
   \<and> option_unwrap (Some_opt (JNum 42)) = Return (JNum 42)"
proof -
  have h: "JNum 42 \<noteq> JUndefined" by simp
  show ?thesis using h Some_is_present [OF h] by simp
qed

text \<open>
  With a stored \<open>undefined\<close> and another fallback, \<open>unwrapOr\<close> does not return the stored
  value: the claim C8, as stated for every \<open>v\<close>, fails at \<open>Some(undefined).unwrapOr(0)\<close>.
\<close>

theorem unwrapOr_Some_undefined:
  "option_unwrapOr (Some_opt JUndefined) (JNum 0) \<noteq> Return JUndefined"
  by (simp add: option_unwrapOr_def option_isSome_def Some_opt_value)

text \<open>
  Claim C8, amended: for every value \<open>v\<close> other than \<open>undefined\<close> and every fallback,
  \<open>Some(v).unwrapOr(fallback)\<close> returns \<open>v\<close>; \<open>None.unwrapOr(fallback)\<close> returns the
  fallback unchanged; and \<open>unwrapOr\<close> returns, without throwing, on every instance.
\<close>

theorem option_unwrapOr_returns:
  "(v \<noteq> JUndefined \<longrightarrow> option_unwrapOr (Some_opt v) fallback = Return v)
   \<and> option_unwrapOr None_opt fallback = Return fallback
   \<and> (\<exists>r. option_unwrapOr this fallback = Return r)"
proof (intro conjI impI)
  assume "v \<noteq> JUndefined"
  then show "option_unwrapOr (Some_opt v) fallback = Return v"
    by (simp add: option_unwrapOr_def option_isSome_def Some_opt_value)
next
  show "option_unwrapOr None_opt fallback = Return fallback"
    by (simp add: option_unwrapOr_def option_isSome_def None_opt_value)
next
  show "\<exists>r. option_unwrapOr this fallback = Return r"
    by (simp add: option_unwrapOr_def)
qed

theorem option_unwrapOr_returns_witness:
  "JNum 1 \<noteq> JUndefined
   \<and> option_unwrapOr (Some_opt (JNum 1)) (JNum 0) = Return (JNum 1)
   \<and> option_unwrapOr None_opt (JNum 0) = Return (JNum 0)"
  using option_unwrapOr_returns [of "JNum 1" "JNum 0" None_opt] by simp

text \<open>
  Claim C9: on the shared \<open>None\<close>, \<open>isSome()\<close> is false, \<open>isNone()\<close> is true, and
  \<open>unwrap()\<close> throws the error \<open>called `unwrap()` on a `None` value\<close> instead of
  returning.
\<close>

theorem None_is_absent:
  "\<not> option_isSome None_opt \<and> option_isNone None_opt
   \<and> option_unwrap None_opt = Throw (new_Error ''called `unwrap()` on a `None` value'')"
  by (simp add: option_isSome_def option_isNone_def option_unwrap_def None_opt_value)

section \<open>Properties of Result\<close>

lemma Ok_fields: "res_value (Ok v) = v" "isError (Ok v) = False"
  by (simp_all add: Ok_def ResultImpl_ok_def new_ResultImpl_def)

lemma Err_fields: "res_value (Err e) = e" "isError (Err e) = True"
  by (simp_all add: Err_def ResultImpl_err_def new_ResultImpl_def)

text \<open>
  \<open>Ok(undefined).ok()\<close> is \<open>Some(undefined)\<close>, which is not present: for this \<open>v\<close> the
  option that the claim C2 calls present is absent, and its \<open>unwrap()\<close> throws.
\<close>

theorem Ok_undefined_ok_not_present:
  "\<not> (result_isOk (Ok JUndefined) \<and> option_isSome (result_ok (Ok JUndefined))
      \<and> option_unwrap (result_ok (Ok JUndefined)) = Return JUndefined
      \<and> option_isNone (result_err (Ok JUndefined)))"
  by (simp add: result_ok_def result_isOk_def Ok_fields option_isSome_def Some_opt_value)

text \<open>
  Claim C2, amended: for every value \<open>v\<close>, \<open>Ok(v).isOk()\<close> is true and \<open>Ok(v).err()\<close> is
  an absent option; for every \<open>v\<close> other than \<open>undefined\<close>, \<open>Ok(v).ok()\<close> is a present
  option whose \<open>unwrap()\<close> returns \<open>v\<close>.
\<close>

theorem Ok_projections:
  "result_isOk (Ok v) \<and> option_isNone (result_err (Ok v))
   \<and> (v \<noteq> JUndefined \<longrightarrow>
        option_isSome (result_ok (Ok v)) \<and> option_unwrap (result_ok (Ok v)) = Return v)"
proof (intro conjI impI)
  show "result_isOk (Ok v)"
    by (simp add: result_isOk_def Ok_fields)
  show "option_isNone (result_err (Ok v))"
    by (simp add: result_err_def result_isErr_def Ok_fields option_isNone_def None_opt_value)
next
  assume v: "v \<noteq> JUndefined"
  have ok: "result_ok (Ok v) = Some_opt v"
    by (simp add: result_ok_def result_isOk_def Ok_fields)
  from v show "option_isSome (result_ok (Ok v))"
    by (simp add: ok option_isSome_def Some_opt_value)
  from v show "option_unwrap (result_ok (Ok v)) = Return v"
    by (simp add: ok option_unwrap_def option_isSome_def Some_opt_value)
qed

theorem Ok_projections_witness:
  "JStr ''done'' \<noteq> JUndefined \<and> result_isOk (Ok (JStr ''done''))
   \<and> option_isNone (result_err (Ok (JStr ''done'')))
   \<and> option_isSome (result_ok (Ok (JStr ''done'')))
   \<and> option_unwrap (result_ok (Ok (JStr ''done''))) = Return (JStr ''done'')"
  using Ok_projections [of "JStr ''done''"] by simp

text \<open>
  Claim C7: for every failure payload \<open>e\<close> (\<open>undefined\<close> included, since the result
  carries its own flag), \<open>Err(e).isErr()\<close> is true, \<open>Err(e).unwrapErr()\<close> returns \<open>e\<close>
  itself, and \<open>Err(e).ok()\<close> is an absent option.
\<close>

theorem Err_projections:
  "result_isErr (Err e) \<and> result_unwrapErr (Err e) = Return e
   \<and> option_isNone (result_ok (Err e)) \<and> \<not> option_isSome (result_ok (Err e))"
  by (simp add: result_isErr_def result_unwrapErr_def result_ok_def result_isOk_def
      Err_fields option_isNone_def option_isSome_def None_opt_value)

text \<open>
  Where the conversion of the payload to a string succeeds, the misuse throws the error
  the source builds, with the converted payload at the end of its message; and no
  payload lets the misuse return.
\<close>

lemma unwrap_wrong_variant_converted:
  "(ToString v = Return s \<longrightarrow>
      result_unwrapErr (Ok v) =
        Throw (new_Error (''called `unwrapErr()` on an `Ok` value: '' @ s)))
   \<and> (ToString e = Return s' \<longrightarrow>
      result_unwrap (Err e) =
        Throw (new_Error (''called `unwrap()` on an `Err` value: '' @ s')))
   \<and> (\<forall>r. result_unwrapErr (Ok v) \<noteq> Return r)
   \<and> (\<forall>r. result_unwrap (Err e) \<noteq> Return r)"
proof (intro conjI impI allI)
  assume "ToString v = Return s"
  then show "result_unwrapErr (Ok v) =
      Throw (new_Error (''called `unwrapErr()` on an `Ok` value: '' @ s))"
    by (simp add: result_unwrapErr_def result_isErr_def Ok_fields)
next
  assume "ToString e = Return s'"
  then show "result_unwrap (Err e) =
      Throw (new_Error (''called `unwrap()` on an `Err` value: '' @ s'))"
    by (simp add: result_unwrap_def result_isOk_def Err_fields)
next
  fix r show "result_unwrapErr (Ok v) \<noteq> Return r"
    by (simp add: result_unwrapErr_def result_isErr_def Ok_fields split: outcome.splits)
next
  fix r show "result_unwrap (Err e) \<noteq> Return r"
    by (simp add: result_unwrap_def result_isOk_def Err_fields split: outcome.splits)
qed

lemma unwrap_wrong_variant_converted_example:
  "ToString (JNum 42) = Return ''42''
   \<and> result_unwrapErr (Ok (JNum 42)) =
       Throw (new_Error ''called `unwrapErr()` on an `Ok` value: 42'')
   \<and> ToString (JStr ''boom'') = Return ''boom''
   \<and> result_unwrap (Err (JStr ''boom'')) =
       Throw (new_Error ''called `unwrap()` on an `Err` value: boom'')"
  using unwrap_wrong_variant_converted [of "JNum 42" "''42''" "JStr ''boom''" "''boom''"]
  by (simp add: Number_toString_def decimal_digit_def)

text \<open>
  Claim C6, at the input where the code misses it: \<open>Ok(Symbol("id")).unwrapErr()\<close> and
  \<open>Err(Symbol("id")).unwrap()\<close> should raise the error whose message carries the
  stringified payload (\<open>Symbol(id)\<close>). The source reaches its \<open>throw new Error(...)\<close>,
  but the template literal of the message cannot convert a Symbol: it throws a
  TypeError before the error is built, and the TypeError is what the caller gets.
\<close>

theorem unwrap_wrong_variant_Symbol:
  "result_unwrapErr (Ok (JSymbol ''id'')) =
     Throw (new_TypeError ''Cannot convert a Symbol value to a string'')
   \<and> result_unwrapErr (Ok (JSymbol ''id'')) \<noteq>
     Throw (new_Error ''called `unwrapErr()` on an `Ok` value: Symbol(id)'')
   \<and> result_unwrap (Err (JSymbol ''id'')) =
     Throw (new_TypeError ''Cannot convert a Symbol value to a string'')
   \<and> result_unwrap (Err (JSymbol ''id'')) \<noteq>
     Throw (new_Error ''called `unwrap()` on an `Err` value: Symbol(id)'')"
  by (simp add: result_unwrapErr_def result_unwrap_def result_isErr_def result_isOk_def
      Ok_fields Err_fields new_TypeError_def new_Error_def)

text \<open>
  Claim C10: a stored \<open>undefined\<close> is read as absence. \<open>Some(undefined)\<close> holds what
  \<open>None\<close> holds: its \<open>isSome()\<close> is false, its \<open>isNone()\<close> is true, its \<open>unwrap()\<close>
  throws and its \<open>unwrapOr(fallback)\<close> returns the fallback; \<open>Ok(undefined).ok()\<close> and
  \<open>Err(undefined).err()\<close> are absent options as well.
\<close>

theorem undefined_payload_is_absent:
  "\<not> option_isSome (Some_opt JUndefined) \<and> option_isNone (Some_opt JUndefined)
   \<and> option_unwrap (Some_opt JUndefined) =
       Throw (new_Error ''called `unwrap()` on a `None` value'')
   \<and> option_unwrapOr (Some_opt JUndefined) fallback = Return fallback
   \<and> opt_value (Some_opt JUndefined) = opt_value None_opt
   \<and> option_isNone (result_ok (Ok JUndefined))
   \<and> \<not> option_isSome (result_ok (Ok JUndefined))
   \<and> option_isNone (result_err (Err JUndefined))
   \<and> \<not> option_isSome (result_err (Err JUndefined))"
  by (simp add: option_isSome_def option_isNone_def option_unwrap_def option_unwrapOr_def
      Some_opt_value None_opt_value result_ok_def result_err_def result_isOk_def
      result_isErr_def Ok_fields Err_fields)

section \<open>Properties of wrapException\<close>

















end
